theory Spec2Isabelle
  imports Main "HOL-Library.Multiset"
begin

section \<open>IS-08-01 channel mapping test suite (IS0801Test.py)\<close>

text \<open>
  The suite drives a remote device through a helper library (\<open>is08.*\<close>, \<open>GenericTest\<close>,
  \<open>TestHelper\<close>, \<open>NMOSUtils\<close>). The helper library is not part of the verified file, so
  its calls are parameters of the model: a record of functions over an abstract device
  state \<open>'d\<close>. Every test case is a program in a state-and-exception monad over the pair
  of the process-wide configuration \<open>globalConfig\<close> and the device state.
\<close>

subsection \<open>Results and exceptions\<close>

text \<open>The \<open>test\<close> object handed to a test case; it is identified by the test's name.\<close>

type_synonym test_handle = string

datatype test_state = PASS | FAIL | NA | MANUAL

record test_result =
  r_test :: test_handle
  r_state :: test_state
  r_detail :: string

text \<open>
  Modelled from the spec: the result-reporting object of the harness (\<open>GenericTest\<close>), with
  terminal outcomes PASS/FAIL/NA/MANUAL. Its methods build and return a result value; they
  do not raise (\<open>check_delayed_activation\<close> binds the value of \<open>test.FAIL(...)\<close> to a variable
  and raises it itself).
\<close>

definition t_PASS :: "test_handle \<Rightarrow> test_result" where
  "t_PASS t = \<lparr>r_test = t, r_state = PASS, r_detail = ''''\<rparr>"

definition t_FAIL :: "test_handle \<Rightarrow> string \<Rightarrow> test_result" where
  "t_FAIL t msg = \<lparr>r_test = t, r_state = FAIL, r_detail = msg\<rparr>"

definition t_NA :: "test_handle \<Rightarrow> string \<Rightarrow> test_result" where
  "t_NA t msg = \<lparr>r_test = t, r_state = NA, r_detail = msg\<rparr>"

definition t_MANUAL :: "test_handle \<Rightarrow> test_result" where
  "t_MANUAL t = \<lparr>r_test = t, r_state = MANUAL, r_detail = ''''\<rparr>"

text \<open>
  The exceptions that can leave a test case: the harness exception \<open>NMOSTestException\<close>,
  which carries a result, and the Python built-in errors the test code itself can cause.
\<close>

datatype exn =
    NMOSTestException test_result
  | IndexError
  | ValueError
  | TypeError
  | AttributeError
  | KeyError
  | UnboundLocalError

subsection \<open>Data model\<close>

datatype json =
    JNull
  | JBool bool
  | JNumber int
  | JString string
  | JArray "json list"
  | JObject "(string \<times> json) list"

text \<open>The capabilities object of an output; \<open>routable_inputs\<close> is \<open>None\<close> when the key is absent.\<close>

record caps =
  routable_inputs :: "string list option"

text \<open>
  Modelled from the spec: the Output snapshot (\<open>is08.outputs\<close>). The accessor methods
  \<open>id\<close>, \<open>getSourceID()\<close>, \<open>getChannelList()\<close>, \<open>getCaps()\<close> and \<open>assembleOutputObject()\<close>
  read the fields of an immutable snapshot and do not raise; \<open>getChannelList()\<close> returns
  the list also when it is empty (tests 11 and 12 test for the empty list themselves).
\<close>

record Output =
  o_id :: string
  o_source_id :: "string option"
  o_channels :: "string list"
  o_caps :: caps
  o_object :: json

text \<open>
  Modelled from the spec: the Input snapshot (\<open>is08.inputs\<close>), with accessors \<open>id\<close>,
  \<open>getParent()\<close>, \<open>getChannelList()\<close>, \<open>getBlockSize()\<close>, \<open>getReordering()\<close>,
  \<open>getRoutableOutputs()\<close> (a list of outputs) and \<open>assembleInputObject()\<close>.
\<close>

record Input =
  i_id :: string
  i_parent :: "string option"
  i_channels :: "string list"
  i_block_size :: int
  i_reordering :: bool
  i_routable_outputs :: "Output list"
  i_object :: json

text \<open>
  The second argument of \<open>Action(...)\<close> is an output id everywhere except in \<open>test_14\<close>,
  which passes the output object itself.
\<close>

datatype output_arg = OutputId string | OutputObject Output

record action =
  a_input :: string
  a_output :: output_arg
  a_input_channel :: "int option"
  a_output_channel :: "int option"

definition Action :: "string \<Rightarrow> output_arg \<Rightarrow> action" where
  "Action i out = \<lparr>a_input = i, a_output = out, a_input_channel = None, a_output_channel = None\<rparr>"

definition Action4 :: "string \<Rightarrow> output_arg \<Rightarrow> int \<Rightarrow> int \<Rightarrow> action" where
  "Action4 i out ic oc =
     \<lparr>a_input = i, a_output = out, a_input_channel = Some ic, a_output_channel = Some oc\<rparr>"

datatype activation_type =
    IMMEDIATE_ACTIVATION
  | SCHEDULED_RELATIVE_ACTIVATION
  | SCHEDULED_ABSOLUTE_ACTIVATION

record activation =
  actions :: "action list"
  type :: activation_type
  activationTimestamp :: "string option"

text \<open>
  Modelled from the spec: a freshly constructed \<open>Activation()\<close> has no actions, is of the
  immediate type (\<open>test_02\<close> fires it unchanged as the immediate activation) and has no
  timestamp.
\<close>

definition Activation :: activation where
  "Activation = \<lparr>actions = [], type = IMMEDIATE_ACTIVATION, activationTimestamp = None\<rparr>"

definition addAction :: "activation \<Rightarrow> action \<Rightarrow> activation" where
  "addAction act a = act\<lparr>actions := actions act @ [a]\<rparr>"

text \<open>The process-wide configuration \<open>globalConfig\<close>.\<close>

record config =
  apiUrl :: string
  apiKey :: string
  test :: "test_handle option"

subsection \<open>The helper library and the device\<close>

text \<open>
  Each call of the helper library reads the configuration, may change the state of the
  device, and either returns a value or raises. \<open>compare_json\<close> is the pure structural
  comparator of \<open>TestHelper\<close>; \<open>sleep\<close> is the effect of \<open>time.sleep\<close> on the device
  (time passes). \<open>assertActionCompleted\<close> takes the \<open>retries\<close> keyword argument, \<open>None\<close>
  when the caller leaves the default. \<open>checkReject\<close> submits an activation that the device
  has to refuse: it returns when the device rejects the submission and raises
  \<open>NMOSTestException\<close> when the device accepts it; \<open>fireActivation\<close> is the other way round.
  The constructors \<open>Active()\<close>, \<open>IO()\<close>, \<open>Activation()\<close> and \<open>Action(...)\<close> only build
  objects, so the methods of \<open>Active\<close> and \<open>IO\<close> appear here as calls without a receiver.
\<close>

record 'd api =
  getInputList :: "config \<Rightarrow> 'd \<Rightarrow> (exn + Input list) \<times> 'd"
  getOutputList :: "config \<Rightarrow> 'd \<Rightarrow> (exn + Output list) \<times> 'd"
  getIOAsJSON :: "config \<Rightarrow> 'd \<Rightarrow> (exn + json) \<times> 'd"
  compare_json :: "json \<Rightarrow> json \<Rightarrow> bool"
  findAcceptableTestRoute :: "Output \<Rightarrow> config \<Rightarrow> 'd \<Rightarrow> (exn + action) \<times> 'd"
  fireActivation :: "activation \<Rightarrow> config \<Rightarrow> 'd \<Rightarrow> (exn + unit) \<times> 'd"
  checkReject :: "activation \<Rightarrow> config \<Rightarrow> 'd \<Rightarrow> (exn + unit) \<times> 'd"
  checkLock :: "activation \<Rightarrow> config \<Rightarrow> 'd \<Rightarrow> (exn + unit) \<times> 'd"
  delete :: "activation \<Rightarrow> config \<Rightarrow> 'd \<Rightarrow> (exn + unit) \<times> 'd"
  unrouteAll :: "config \<Rightarrow> 'd \<Rightarrow> (exn + unit) \<times> 'd"
  buildJSONObject :: "config \<Rightarrow> 'd \<Rightarrow> (exn + json) \<times> 'd"
  assertActionCompleted :: "action \<Rightarrow> nat option \<Rightarrow> config \<Rightarrow> 'd \<Rightarrow> (exn + unit) \<times> 'd"
  getInputChannelIndex :: "Output \<Rightarrow> nat \<Rightarrow> config \<Rightarrow> 'd \<Rightarrow> (exn + int option) \<times> 'd"
  getInputChannelName :: "Output \<Rightarrow> nat \<Rightarrow> config \<Rightarrow> 'd \<Rightarrow> (exn + string option) \<times> 'd"
  get_TAI_time :: "nat \<Rightarrow> config \<Rightarrow> 'd \<Rightarrow> (exn + string) \<times> 'd"
  sleep :: "nat \<Rightarrow> 'd \<Rightarrow> 'd"

subsection \<open>Programs: state and exceptions\<close>

type_synonym ('a, 'd) prog = "config \<times> 'd \<Rightarrow> (exn + 'a) \<times> (config \<times> 'd)"

definition return :: "'a \<Rightarrow> ('a, 'd) prog" where
  "return x = (\<lambda>s. (Inr x, s))"

definition raise :: "exn \<Rightarrow> ('a, 'd) prog" where
  "raise e = (\<lambda>s. (Inl e, s))"

definition bind :: "('a, 'd) prog \<Rightarrow> ('a \<Rightarrow> ('b, 'd) prog) \<Rightarrow> ('b, 'd) prog" where
  "bind m f = (\<lambda>s. case m s of (Inl e, s') \<Rightarrow> (Inl e, s') | (Inr x, s') \<Rightarrow> f x s')"

text \<open>A call of the helper library: it sees the configuration and steps the device.\<close>

definition call :: "(config \<Rightarrow> 'd \<Rightarrow> (exn + 'a) \<times> 'd) \<Rightarrow> ('a, 'd) prog" where
  "call f = (\<lambda>(c, d). case f c d of (r, d') \<Rightarrow> (r, (c, d')))"

text \<open>A pure computation that may raise.\<close>

definition lift :: "exn + 'a \<Rightarrow> ('a, 'd) prog" where
  "lift r = (\<lambda>s. (r, s))"

text \<open>\<open>globalConfig.test = test\<close>\<close>

definition set_test :: "test_handle \<Rightarrow> (unit, 'd) prog" where
  "set_test t = (\<lambda>(c, d). (Inr (), (c\<lparr>test := Some t\<rparr>, d)))"

definition get_config :: "(config, 'd) prog" where
  "get_config = (\<lambda>(c, d). (Inr c, (c, d)))"

text \<open>\<open>time.sleep(n)\<close>\<close>

definition time_sleep :: "'d api \<Rightarrow> nat \<Rightarrow> (unit, 'd) prog" where
  "time_sleep api n = (\<lambda>(c, d). (Inr (), (c, sleep api n d)))"

text \<open>\<open>try: m except NMOSTestException as e: h e\<close>; every other exception passes through.\<close>

definition try_except :: "('a, 'd) prog \<Rightarrow> (test_result \<Rightarrow> ('a, 'd) prog) \<Rightarrow> ('a, 'd) prog" where
  "try_except m h =
     (\<lambda>s. case m s of
             (Inl (NMOSTestException r), s') \<Rightarrow> h r s'
           | (Inl e, s') \<Rightarrow> (Inl e, s')
           | (Inr x, s') \<Rightarrow> (Inr x, s'))"

text \<open>\<open>xs[0]\<close>: raises \<open>IndexError\<close> on the empty list.\<close>

definition index0 :: "'a list \<Rightarrow> ('a, 'd) prog" where
  "index0 xs = (case xs of [] \<Rightarrow> raise IndexError | x # _ \<Rightarrow> return x)"

subsection \<open>Python containers\<close>

text \<open>\<open>d[k] = v\<close> on a dictionary kept in insertion order.\<close>

fun dict_set :: "'k \<Rightarrow> 'v \<Rightarrow> ('k \<times> 'v) list \<Rightarrow> ('k \<times> 'v) list" where
  "dict_set k v [] = [(k, v)]"
| "dict_set k v ((k', v') # d) =
     (if k = k' then (k, v) # d else (k', v') # dict_set k v d)"

text \<open>
  \<open>for r in routable: forbidden.remove(r)\<close>: \<open>list.remove\<close> deletes the first occurrence
  and raises \<open>ValueError\<close> when there is none.
\<close>

fun remove_each :: "string list \<Rightarrow> string list \<Rightarrow> exn + string list" where
  "remove_each forbidden [] = Inr forbidden"
| "remove_each forbidden (r # rs) =
     (if r \<in> set forbidden then remove_each (remove1 r forbidden) rs else Inl ValueError)"

subsection \<open>The test cases\<close>

text \<open>\<open>test_01_io_content_match\<close>\<close>

fun assemble_inputs :: "Input list \<Rightarrow> (string \<times> json) list \<Rightarrow> (string \<times> json) list" where
  "assemble_inputs [] d = d"
| "assemble_inputs (i # inputList) d = assemble_inputs inputList (dict_set (i_id i) (i_object i) d)"

fun assemble_outputs :: "Output list \<Rightarrow> (string \<times> json) list \<Rightarrow> (string \<times> json) list" where
  "assemble_outputs [] d = d"
| "assemble_outputs (out # outputList) d =
     assemble_outputs outputList (dict_set (o_id out) (o_object out) d)"

definition mockIoResource :: "Input list \<Rightarrow> Output list \<Rightarrow> json" where
  "mockIoResource inputList outputList =
     JObject [(''inputs'', JObject (assemble_inputs inputList [])),
              (''outputs'', JObject (assemble_outputs outputList []))]"

definition test_01_io_content_match :: "'d api \<Rightarrow> test_handle \<Rightarrow> (test_result, 'd) prog" where
  "test_01_io_content_match api t =
     bind (set_test t) (\<lambda>_.
     bind (call (getInputList api)) (\<lambda>inputList.
     bind (call (getOutputList api)) (\<lambda>outputList.
     bind (call (getIOAsJSON api)) (\<lambda>ioJSON.
     if compare_json api (mockIoResource inputList outputList) ioJSON
     then return (t_PASS t)
     else return (t_FAIL t ''IO Resource does not correctly reflect the API resources'')))))"

text \<open>\<open>test_02_immediate_activation\<close>\<close>

definition test_02_immediate_activation :: "'d api \<Rightarrow> test_handle \<Rightarrow> (test_result, 'd) prog" where
  "test_02_immediate_activation api t =
     bind (set_test t) (\<lambda>_.
     bind (call (getOutputList api)) (\<lambda>outputList.
     bind (index0 outputList) (\<lambda>output0.
     bind (call (findAcceptableTestRoute api output0)) (\<lambda>testRouteAction.
     bind (call (fireActivation api (addAction Activation testRouteAction))) (\<lambda>_.
     bind (call (assertActionCompleted api testRouteAction None)) (\<lambda>_.
     return (t_PASS t)))))))"

text \<open>\<open>check_delayed_activation(activationTime, activationType)\<close>\<close>

definition check_delayed_activation ::
  "'d api \<Rightarrow> string \<Rightarrow> activation_type \<Rightarrow> (unit, 'd) prog" where
  "check_delayed_activation api activationTime activationType =
     bind (call (unrouteAll api)) (\<lambda>_.
     bind (call (buildJSONObject api)) (\<lambda>preActivationState.
     bind (call (getOutputList api)) (\<lambda>outputList.
     bind (index0 outputList) (\<lambda>output0.
     bind (call (findAcceptableTestRoute api output0)) (\<lambda>testRouteAction.
     bind (try_except
             (call (fireActivation api
                ((addAction Activation testRouteAction)
                   \<lparr>type := activationType, activationTimestamp := Some activationTime\<rparr>)))
             (\<lambda>e. bind (time_sleep api 2) (\<lambda>_. raise (NMOSTestException e)))) (\<lambda>_.
     bind (call (buildJSONObject api)) (\<lambda>pendingState.
     bind (if \<not> compare_json api preActivationState pendingState
           then bind get_config (\<lambda>c.
                  case test c of
                    None \<Rightarrow> raise AttributeError
                  | Some gt \<Rightarrow>
                      raise (NMOSTestException
                               (t_FAIL gt ''Scheduled Activation completed immediately'')))
           else return ()) (\<lambda>_.
     bind (time_sleep api 2) (\<lambda>_.
     bind (call (assertActionCompleted api testRouteAction (Some 5))) (\<lambda>_.
     time_sleep api 1))))))))))"

text \<open>\<open>test_03_relative_activation\<close>\<close>

definition test_03_relative_activation :: "'d api \<Rightarrow> test_handle \<Rightarrow> (test_result, 'd) prog" where
  "test_03_relative_activation api t =
     bind (set_test t) (\<lambda>_.
     bind (check_delayed_activation api ''2:0'' SCHEDULED_RELATIVE_ACTIVATION) (\<lambda>_.
     return (t_PASS t)))"

text \<open>\<open>test_04_absolute_activation\<close>\<close>

definition test_04_absolute_activation :: "'d api \<Rightarrow> test_handle \<Rightarrow> (test_result, 'd) prog" where
  "test_04_absolute_activation api t =
     bind (set_test t) (\<lambda>_.
     bind (call (get_TAI_time api 2)) (\<lambda>timestamp.
     bind (check_delayed_activation api timestamp SCHEDULED_ABSOLUTE_ACTIVATION) (\<lambda>_.
     return (t_PASS t))))"

text \<open>\<open>test_05_delete_activations\<close>\<close>

definition test_05_delete_activations :: "'d api \<Rightarrow> test_handle \<Rightarrow> (test_result, 'd) prog" where
  "test_05_delete_activations api t =
     bind (set_test t) (\<lambda>_.
     bind (call (unrouteAll api)) (\<lambda>_.
     bind (call (getOutputList api)) (\<lambda>outputList.
     bind (index0 outputList) (\<lambda>output0.
     bind (call (findAcceptableTestRoute api output0)) (\<lambda>testRouteAction.
     bind (return ((addAction Activation testRouteAction)
                     \<lparr>type := SCHEDULED_RELATIVE_ACTIVATION,
                      activationTimestamp := Some ''2:0''\<rparr>)) (\<lambda>activation.
     bind (try_except
             (call (fireActivation api activation))
             (\<lambda>e. bind (time_sleep api 2) (\<lambda>_. raise (NMOSTestException e)))) (\<lambda>_.
     bind (time_sleep api 1) (\<lambda>_.
     bind (call (delete api activation)) (\<lambda>_.
     return (t_PASS t))))))))))"

text \<open>\<open>test_06_locking_response\<close>\<close>

definition test_06_locking_response :: "'d api \<Rightarrow> test_handle \<Rightarrow> (test_result, 'd) prog" where
  "test_06_locking_response api t =
     bind (set_test t) (\<lambda>_.
     bind (call (getOutputList api)) (\<lambda>outputList.
     bind (index0 outputList) (\<lambda>output0.
     bind (call (findAcceptableTestRoute api output0)) (\<lambda>testRouteAction.
     bind (return ((addAction Activation testRouteAction)
                     \<lparr>type := SCHEDULED_RELATIVE_ACTIVATION,
                      activationTimestamp := Some ''5:0''\<rparr>)) (\<lambda>activation.
     bind (call (fireActivation api activation)) (\<lambda>_.
     bind (call (checkLock api activation)) (\<lambda>_.
     return (t_PASS t))))))))"

text \<open>\<open>test_07_unrouted_channels_null\<close>\<close>

text \<open>
  \<open>inputChannelIndex != inputChannelName\<close> between an integer-or-\<open>None\<close> and a
  string-or-\<open>None\<close>: only \<open>None != None\<close> is false.
\<close>

definition index_ne_name :: "int option \<Rightarrow> string option \<Rightarrow> bool" where
  "index_ne_name inputChannelIndex inputChannelName =
     (\<not> (inputChannelIndex = None \<and> inputChannelName = None))"

definition msg_07 :: string where
  "msg_07 = ''Both the channel index and name must be set to `null` when the a channel is not routed''"

text \<open>
  The inner loop over \<open>range(0, len(channelList))\<close>. The value of \<open>test.FAIL(msg)\<close> is
  computed and dropped: the statement has no \<open>return\<close>.
\<close>

fun channel_loop :: "'d api \<Rightarrow> test_handle \<Rightarrow> Output \<Rightarrow> nat list \<Rightarrow> (unit, 'd) prog" where
  "channel_loop api t outputInstance [] = return ()"
| "channel_loop api t outputInstance (channelID # rest) =
     bind (call (getInputChannelIndex api outputInstance channelID)) (\<lambda>inputChannelIndex.
     bind (call (getInputChannelName api outputInstance channelID)) (\<lambda>inputChannelName.
     bind (if inputChannelIndex = None \<or> inputChannelName = None
           then (if index_ne_name inputChannelIndex inputChannelName
                 then bind (return (t_FAIL t msg_07)) (\<lambda>_. return ())
                 else return ())
           else return ()) (\<lambda>_.
     channel_loop api t outputInstance rest)))"

fun output_loop :: "'d api \<Rightarrow> test_handle \<Rightarrow> Output list \<Rightarrow> (unit, 'd) prog" where
  "output_loop api t [] = return ()"
| "output_loop api t (outputInstance # rest) =
     bind (channel_loop api t outputInstance [0..<length (o_channels outputInstance)]) (\<lambda>_.
     output_loop api t rest)"

definition test_07_unrouted_channels_null :: "'d api \<Rightarrow> test_handle \<Rightarrow> (test_result, 'd) prog" where
  "test_07_unrouted_channels_null api t =
     bind (set_test t) (\<lambda>_.
     bind (call (getOutputList api)) (\<lambda>outputList.
     bind (output_loop api t outputList) (\<lambda>_.
     return (t_PASS t))))"

text \<open>\<open>test_08_no_reentrant_loops\<close>\<close>

record route =
  r_input :: Input
  r_output :: Output

definition forbiddenRoutes_08 :: "Output list \<Rightarrow> Input list \<Rightarrow> route list" where
  "forbiddenRoutes_08 outputList inputList =
     [\<lparr>r_input = inputInstance, r_output = outputInstance\<rparr>.
        outputInstance \<leftarrow> outputList, inputInstance \<leftarrow> inputList,
        o_source_id outputInstance = i_parent inputInstance]"

definition msg_08 :: "route \<Rightarrow> string" where
  "msg_08 r =
     ''It is possible to create a loop using re-entrant matricies between input ''
       @ i_id (r_input r) @ '' and output '' @ o_id (r_output r)"

fun check_routes :: "test_handle \<Rightarrow> route list \<Rightarrow> test_result" where
  "check_routes t [] = t_PASS t"
| "check_routes t (r # rest) =
     (case routable_inputs (o_caps (r_output r)) of
        None \<Rightarrow> t_FAIL t (msg_08 r)
      | Some routableInputs \<Rightarrow>
          if o_id (r_output r) \<notin> set routableInputs then t_FAIL t (msg_08 r)
          else check_routes t rest)"

definition test_08_no_reentrant_loops :: "'d api \<Rightarrow> test_handle \<Rightarrow> (test_result, 'd) prog" where
  "test_08_no_reentrant_loops api t =
     bind (set_test t) (\<lambda>_.
     bind (call (getOutputList api)) (\<lambda>outputList.
     bind (call (getInputList api)) (\<lambda>inputList.
     return (check_routes t (forbiddenRoutes_08 outputList inputList)))))"






text \<open>\<open>test_13_violate_routing_constraints_rejected\<close>\<close>

record constrainedOutput =
  co_output :: Output
  co_routableInputs :: "string list"

text \<open>The first loop: an output is kept when its caps have the key \<open>routable_inputs\<close>.\<close>

fun constrainedOutputList :: "Output list \<Rightarrow> constrainedOutput list" where
  "constrainedOutputList [] = []"
| "constrainedOutputList (outputInstance # rest) =
     (case routable_inputs (o_caps outputInstance) of
        None \<Rightarrow> constrainedOutputList rest
      | Some routableInputs \<Rightarrow>
          \<lparr>co_output = outputInstance, co_routableInputs = routableInputs\<rparr>
            # constrainedOutputList rest)"

definition msg_13 :: "string \<Rightarrow> string \<Rightarrow> string" where
  "msg_13 inputID outputID =
     ''Was able to create a forbidden route between input '' @ inputID
       @ '' and output '' @ outputID @ '' despite routing constraint.''"

text \<open>
  The loop over the constrained outputs. \<open>outputInstance\<close> is the variable of the first
  loop, still bound to the last element of \<open>outputList\<close>; the message uses it. The branch
  \<open>len(forbiddenRoutes) > 0\<close> is the non-empty case, where \<open>forbiddenRoutes[0]\<close> is the head.
  The handler returns from the test; a normal return of \<open>checkReject\<close> goes on with the
  next output.
\<close>

fun forbidden_loop ::
  "'d api \<Rightarrow> test_handle \<Rightarrow> Output \<Rightarrow> string list \<Rightarrow> constrainedOutput list
     \<Rightarrow> (test_result, 'd) prog" where
  "forbidden_loop api t outputInstance inputIDList [] =
     return (t_NA t ''Could not test - no route is forbidden.'')"
| "forbidden_loop api t outputInstance inputIDList (constrained # rest) =
     bind (lift (remove_each inputIDList (co_routableInputs constrained))) (\<lambda>forbiddenRoutes.
     case forbiddenRoutes of
       [] \<Rightarrow> forbidden_loop api t outputInstance inputIDList rest
     | forbidden0 # _ \<Rightarrow>
         bind (try_except
                 (bind (call (checkReject api
                          (addAction Activation
                             (Action forbidden0 (OutputId (o_id (co_output constrained)))))))
                    (\<lambda>_. return None))
                 (\<lambda>e. return (Some (t_FAIL t (msg_13 forbidden0 (o_id outputInstance))))))
           (\<lambda>returned.
              case returned of
                Some res \<Rightarrow> return res
              | None \<Rightarrow> forbidden_loop api t outputInstance inputIDList rest))"

definition test_13_violate_routing_constraints_rejected ::
  "'d api \<Rightarrow> test_handle \<Rightarrow> (test_result, 'd) prog" where
  "test_13_violate_routing_constraints_rejected api t =
     bind (set_test t) (\<lambda>_.
     bind (call (getOutputList api)) (\<lambda>outputList.
     if length (constrainedOutputList outputList) = 0
     then return (t_NA t ''Could not test - no outputs have routing constraints set.'')
     else
       bind (call (getInputList api)) (\<lambda>inputList.
       forbidden_loop api t (last outputList) (map i_id inputList)
         (constrainedOutputList outputList))))"

text \<open>\<open>test_14_reordering_constraint\<close>\<close>

definition bind_sum :: "exn + 'a \<Rightarrow> ('a \<Rightarrow> exn + 'b) \<Rightarrow> exn + 'b" where
  "bind_sum r f = (case r of Inl e \<Rightarrow> Inl e | Inr x \<Rightarrow> f x)"

text \<open>
  \<open>len(x.getChannelList)\<close>: the argument is the bound method, not its result, and \<open>len\<close> of
  a method raises \<open>TypeError\<close>.
\<close>

definition len_of_method :: "exn + int" where
  "len_of_method = Inl TypeError"

text \<open>
  \<open>k in d.keys\<close>: the right operand is the bound method \<open>keys\<close>, which is not iterable, so
  \<open>in\<close> raises \<open>TypeError\<close>.
\<close>

definition in_keys_method :: "exn + bool" where
  "in_keys_method = Inl TypeError"

text \<open>
  The loop that filters the constrained inputs by block size. It carries the local variable
  \<open>blockSize\<close>, which the last loop of the test reads again.
\<close>

fun filter_by_block ::
  "Input list \<Rightarrow> int option \<Rightarrow> Input list \<Rightarrow> exn + (int option \<times> Input list)" where
  "filter_by_block [] blockSize filteredInputs = Inr (blockSize, filteredInputs)"
| "filter_by_block (inputInstance # rest) _ filteredInputs =
     bind_sum len_of_method (\<lambda>n.
     filter_by_block rest (Some (i_block_size inputInstance))
       (if n \<ge> i_block_size inputInstance * 2 then filteredInputs @ [inputInstance]
        else filteredInputs))"

fun pick_target ::
  "Input \<Rightarrow> Output list \<Rightarrow> (string \<times> Output) list \<Rightarrow> exn + (string \<times> Output) list" where
  "pick_target inputInstance [] targetOutputList = Inr targetOutputList"
| "pick_target inputInstance (outputInstance # rest) targetOutputList =
     bind_sum len_of_method (\<lambda>n.
     pick_target inputInstance rest
       (if n \<ge> i_block_size inputInstance * 2
        then dict_set (i_id inputInstance) outputInstance targetOutputList
        else targetOutputList))"

fun find_targets ::
  "Input list \<Rightarrow> (string \<times> Output) list \<Rightarrow> Input list
     \<Rightarrow> exn + ((string \<times> Output) list \<times> Input list)" where
  "find_targets [] targetOutputList testableInputs = Inr (targetOutputList, testableInputs)"
| "find_targets (inputInstance # rest) targetOutputList testableInputs =
     bind_sum (pick_target inputInstance (i_routable_outputs inputInstance) targetOutputList)
       (\<lambda>targetOutputList'.
     bind_sum in_keys_method (\<lambda>present.
     find_targets rest targetOutputList'
       (if present then testableInputs @ [inputInstance] else testableInputs)))"

text \<open>
  The loops that cross over blocks one and two, over \<open>range(0, getBlockSize())\<close>. The body
  reads the variable \<open>blockSize\<close> left by the first loop (unbound if that loop never ran)
  and the dictionary entry \<open>targetOutputList[id]\<close>.
\<close>

fun cross_channels ::
  "int option \<Rightarrow> (string \<times> Output) list \<Rightarrow> Input \<Rightarrow> int list \<Rightarrow> activation
     \<Rightarrow> exn + activation" where
  "cross_channels blockSize targetOutputList inputInstance [] act = Inr act"
| "cross_channels blockSize targetOutputList inputInstance (inputChannelIndex # rest) act =
     (case blockSize of
        None \<Rightarrow> Inl UnboundLocalError
      | Some b \<Rightarrow>
          (case map_of targetOutputList (i_id inputInstance) of
             None \<Rightarrow> Inl KeyError
           | Some target \<Rightarrow>
               cross_channels blockSize targetOutputList inputInstance rest
                 (addAction
                    (addAction act
                       (Action4 (i_id inputInstance) (OutputObject target)
                          inputChannelIndex (inputChannelIndex + b)))
                    (Action4 (i_id inputInstance) (OutputObject target)
                       (inputChannelIndex + b) inputChannelIndex))))"

fun cross_blocks ::
  "int option \<Rightarrow> (string \<times> Output) list \<Rightarrow> Input list \<Rightarrow> activation \<Rightarrow> exn + activation" where
  "cross_blocks blockSize targetOutputList [] act = Inr act"
| "cross_blocks blockSize targetOutputList (inputInstance # rest) act =
     bind_sum (cross_channels blockSize targetOutputList inputInstance
                 [0..i_block_size inputInstance - 1] act)
       (cross_blocks blockSize targetOutputList rest)"

definition test_14_reordering_constraint :: "'d api \<Rightarrow> test_handle \<Rightarrow> (test_result, 'd) prog" where
  "test_14_reordering_constraint api t =
     bind (set_test t) (\<lambda>_.
     bind (call (getInputList api)) (\<lambda>inputList.
     bind (return (filter (\<lambda>inputInstance. \<not> i_reordering inputInstance) inputList))
       (\<lambda>constrainedInputs.
     if constrainedInputs = []
     then return (t_NA t ''No inputs prevent re-ordering.'')
     else
       bind (lift (filter_by_block constrainedInputs None [])) (\<lambda>(blockSize, filteredInputs).
       bind (lift (find_targets filteredInputs [] [])) (\<lambda>(targetOutputList, testableInputs).
       bind (lift (cross_blocks blockSize targetOutputList testableInputs Activation))
         (\<lambda>activation.
       bind (try_except
               (bind (call (fireActivation api activation)) (\<lambda>_. return None))
               (\<lambda>e. return (Some (t_PASS t))))
         (\<lambda>returned.
            case returned of
              Some res \<Rightarrow> return res
            | None \<Rightarrow>
                return (t_FAIL t
                  ''Channels could be re-ordered despite re-ordering constraint.''))))))))"

text \<open>\<open>test_15_block_constraint\<close>\<close>

text \<open>
  \<open>output.id\<close> where \<open>output\<close> is the list returned by \<open>getRoutableOutputs()\<close>: a list has no
  attribute \<open>id\<close>, so the attribute access raises \<open>AttributeError\<close>.
\<close>

definition id_of_list :: "Output list \<Rightarrow> exn + string" where
  "id_of_list outputs = Inl AttributeError"

definition test_15_block_constraint :: "'d api \<Rightarrow> test_handle \<Rightarrow> (test_result, 'd) prog" where
  "test_15_block_constraint api t =
     bind (set_test t) (\<lambda>_.
     bind (call (getInputList api)) (\<lambda>inputList.
     bind (return (filter (\<lambda>inputInstance. i_block_size inputInstance > 1) inputList))
       (\<lambda>constrainedInputs.
     if constrainedInputs = []
     then return (t_NA t ''No inputs constrain by block.'')
     else
       bind (index0 constrainedInputs) (\<lambda>chosenInput.
       bind (return (i_routable_outputs chosenInput)) (\<lambda>outputs.
       bind (lift (id_of_list outputs)) (\<lambda>output_id.
       bind (return (addAction Activation (Action (i_id chosenInput) (OutputId output_id))))
         (\<lambda>activation.
       bind (try_except
               (bind (call (fireActivation api activation)) (\<lambda>_. return None))
               (\<lambda>e. return (Some (t_PASS t))))
         (\<lambda>returned.
            case returned of
              Some res \<Rightarrow> return res
            | None \<Rightarrow> return (t_FAIL t ''Was able to break block size routing constraint'')))))))))"

subsection \<open>The suite\<close>



subsection \<open>Notions used in the statements\<close>

text \<open>A call that returns normally.\<close>

definition returns :: "(exn + 'a) \<times> 'd \<Rightarrow> bool" where
  "returns r = (case fst r of Inl e \<Rightarrow> False | Inr x \<Rightarrow> True)"

text \<open>A program that leaves the configuration as it found it.\<close>

definition keeps_config :: "('a, 'd) prog \<Rightarrow> bool" where
  "keeps_config m = (\<forall>c d. fst (snd (m (c, d))) = c)"

text \<open>
  The reconstruction of the IO view in the words of the specification: every input object
  under \<open>inputs\<close> and every output object under \<open>outputs\<close>, each keyed by its id.
\<close>

definition io_reconstruction :: "Input list \<Rightarrow> Output list \<Rightarrow> json" where
  "io_reconstruction inputList outputList =
     JObject [(''inputs'', JObject (map (\<lambda>i. (i_id i, i_object i)) inputList)),
              (''outputs'', JObject (map (\<lambda>out. (o_id out, o_object out)) outputList))]"


subsection \<open>A simulated device\<close>

text \<open>
  A small device and helper library on which the theorems below are instantiated. Its
  state is a version counter of the Active map: time passing applies pending activations,
  and a device that applies scheduled activations at once bumps the counter on submission.
\<close>

record mock =
  m_inputs :: "Input list"
  m_outputs :: "Output list"
  m_io :: json
  m_unroute_ok :: bool
  m_accepts :: bool
  m_immediate :: bool
  m_active :: "string \<Rightarrow> nat \<Rightarrow> int option \<times> string option"

definition helper_fail :: "config \<Rightarrow> string \<Rightarrow> exn" where
  "helper_fail c msg =
     NMOSTestException (t_FAIL (case test c of None \<Rightarrow> [] | Some t \<Rightarrow> t) msg)"

definition mock_api :: "mock \<Rightarrow> nat api" where
  "mock_api m =
     \<lparr>getInputList = (\<lambda>c d. (Inr (m_inputs m), d)),
      getOutputList = (\<lambda>c d. (Inr (m_outputs m), d)),
      getIOAsJSON = (\<lambda>c d. (Inr (m_io m), d)),
      compare_json = (\<lambda>a b. a = b),
      findAcceptableTestRoute = (\<lambda>out c d.
        (case m_inputs m of
           [] \<Rightarrow> Inl (helper_fail c ''no acceptable route'')
         | i # _ \<Rightarrow> Inr (Action (i_id i) (OutputId (o_id out))), d)),
      fireActivation = (\<lambda>act c d.
        if m_accepts m then (Inr (), if m_immediate m then Suc d else d)
        else (Inl (helper_fail c ''activation rejected''), d)),
      checkReject = (\<lambda>act c d.
        if m_accepts m then (Inl (helper_fail c ''activation accepted''), Suc d)
        else (Inr (), d)),
      checkLock = (\<lambda>act c d. (Inr (), d)),
      delete = (\<lambda>act c d. (Inr (), d)),
      unrouteAll = (\<lambda>c d.
        if m_unroute_ok m then (Inr (), d) else (Inl (helper_fail c ''unroute rejected''), d)),
      buildJSONObject = (\<lambda>c d. (Inr (JNumber (int d)), d)),
      assertActionCompleted = (\<lambda>a retries c d. (Inr (), d)),
      getInputChannelIndex = (\<lambda>out channel c d. (Inr (fst (m_active m (o_id out) channel)), d)),
      getInputChannelName = (\<lambda>out channel c d. (Inr (snd (m_active m (o_id out) channel)), d)),
      get_TAI_time = (\<lambda>offset c d. (Inr ''1572861600:0'', d)),
      sleep = (\<lambda>n d. d + n)\<rparr>"

definition config0 :: config where
  "config0 = \<lparr>apiUrl = ''http://device/x-nmos/channelmapping/v1.0/'',
              apiKey = ''channelmapping'', test = None\<rparr>"

definition mk_output :: "string \<Rightarrow> string option \<Rightarrow> string list option \<Rightarrow> Output" where
  "mk_output ident source routable =
     \<lparr>o_id = ident, o_source_id = source, o_channels = [''L'', ''R''],
      o_caps = \<lparr>routable_inputs = routable\<rparr>, o_object = JString ident\<rparr>"

definition mk_input :: "string \<Rightarrow> string option \<Rightarrow> int \<Rightarrow> bool \<Rightarrow> Input" where
  "mk_input ident parent block reorder =
     \<lparr>i_id = ident, i_parent = parent, i_channels = [''L'', ''R''], i_block_size = block,
      i_reordering = reorder, i_routable_outputs = [], i_object = JString ident\<rparr>"

definition mk_mock :: "Input list \<Rightarrow> Output list \<Rightarrow> bool \<Rightarrow> mock" where
  "mk_mock ins outs accepts =
     \<lparr>m_inputs = ins, m_outputs = outs, m_io = JNull, m_unroute_ok = True,
      m_accepts = accepts, m_immediate = False, m_active = (\<lambda>_ _. (None, None))\<rparr>"

text \<open>A device with one input and one output that applies a scheduled activation at once.\<close>

definition dev_immediate :: mock where
  "dev_immediate =
     (mk_mock [mk_input ''in0'' None 1 True] [mk_output ''out0'' None None] True)
       \<lparr>m_immediate := True\<rparr>"

text \<open>A device without outputs; the second one answers the unroute request with an error.\<close>

definition dev_no_outputs :: mock where
  "dev_no_outputs = mk_mock [mk_input ''in0'' None 1 True] [] True"

definition dev_no_outputs_unroute_error :: mock where
  "dev_no_outputs_unroute_error = dev_no_outputs\<lparr>m_unroute_ok := False\<rparr>"

text \<open>
  Helper libraries for a device without outputs on which reading the Active resource,
  respectively computing the TAI time, raises.
\<close>

definition api_active_error :: "nat api" where
  "api_active_error =
     (mock_api dev_no_outputs)
       \<lparr>buildJSONObject := (\<lambda>c d. (Inl (helper_fail c ''active unreadable''), d))\<rparr>"

definition api_clock_error :: "nat api" where
  "api_clock_error =
     (mock_api dev_no_outputs)
       \<lparr>get_TAI_time := (\<lambda>offset c d. (Inl (helper_fail c ''no clock''), d))\<rparr>"

text \<open>A device whose IO view agrees with its single input and single output.\<close>

definition dev_io :: mock where
  "dev_io =
     (mk_mock [mk_input ''in0'' None 1 True] [mk_output ''out0'' None None] True)
       \<lparr>m_io := JObject [(''inputs'', JObject [(''in0'', JString ''in0'')]),
                         (''outputs'', JObject [(''out0'', JString ''out0'')])]\<rparr>"



definition dev_rejects_forbidden :: mock where
  "dev_rejects_forbidden =
     mk_mock [mk_input ''in0'' None 1 True, mk_input ''in1'' None 1 True]
       [mk_output ''out0'' None (Some [''in0''])] False"

text \<open>
  Devices for the re-entrant loop test: the output and the input are fed from the same
  device \<open>dev\<close>, and the output's allow-list admits the input. In the first device the input
  and the output have the same id; in the second the allow-list also names the output.
\<close>

definition dev_reentrant_same_id :: mock where
  "dev_reentrant_same_id =
     mk_mock [mk_input ''1'' (Some ''dev'') 1 True]
       [mk_output ''1'' (Some ''dev'') (Some [''1''])] True"

definition dev_reentrant_listed :: mock where
  "dev_reentrant_listed =
     mk_mock [mk_input ''in0'' (Some ''dev'') 1 True]
       [mk_output ''out0'' (Some ''dev'') (Some [''in0'', ''out0''])] True"

text \<open>A device that reports an input channel name, but no index, for every output channel.\<close>

definition dev_partial_null :: mock where
  "dev_partial_null =
     (mk_mock [mk_input ''in0'' None 1 True] [mk_output ''out0'' None None] True)
       \<lparr>m_active := (\<lambda>_ _. (None, Some ''in0''))\<rparr>"

text \<open>
  A device whose input forbids re-ordering and one whose input has block size two; both
  inputs can be routed to the output \<open>out0\<close>, and the device rejects every activation.
\<close>

definition dev_no_reordering :: mock where
  "dev_no_reordering =
     mk_mock [(mk_input ''in0'' None 1 False)
                \<lparr>i_routable_outputs := [mk_output ''out0'' None None]\<rparr>]
       [mk_output ''out0'' None None] False"

definition dev_block_size_two :: mock where
  "dev_block_size_two =
     mk_mock [(mk_input ''in0'' None 2 True)
                \<lparr>i_routable_outputs := [mk_output ''out0'' None None]\<rparr>]
       [mk_output ''out0'' None None] False"

section \<open>Properties\<close>

subsection \<open>Running programs\<close>

lemma return_apply [simp]: "return x s = (Inr x, s)"
  by (simp add: return_def)

lemma raise_apply [simp]: "raise e s = (Inl e, s)"
  by (simp add: raise_def)

lemma lift_apply [simp]: "lift r s = (r, s)"
  by (simp add: lift_def)

lemma bind_return [simp]: "bind (return x) f = f x"
  by (simp add: bind_def return_def)

lemma bind_raise [simp]: "bind (raise e) f = raise e"
  by (simp add: bind_def raise_def)

lemma bind_assoc: "bind (bind m f) g = bind m (\<lambda>x. bind (f x) g)"
  by (auto simp: bind_def fun_eq_iff split: prod.splits sum.splits)

lemma bind_set_test [simp]: "bind (set_test t) f (c, d) = f () (c\<lparr>test := Some t\<rparr>, d)"
  by (simp add: bind_def set_test_def)

lemma bind_get_config [simp]: "bind get_config f (c, d) = f c (c, d)"
  by (simp add: bind_def get_config_def)

lemma time_sleep_apply [simp]: "time_sleep api n (c, d) = (Inr (), (c, sleep api n d))"
  by (simp add: time_sleep_def)

lemma bind_time_sleep [simp]: "bind (time_sleep api n) f (c, d) = f () (c, sleep api n d)"
  by (simp add: bind_def time_sleep_def)

lemma call_apply: "call g (c, d) = (case g c d of (r, d') \<Rightarrow> (r, (c, d')))"
  by (simp add: call_def)

lemma bind_call:
  "bind (call g) f (c, d) =
     (case g c d of (Inl e, d') \<Rightarrow> (Inl e, (c, d')) | (Inr x, d') \<Rightarrow> f x (c, d'))"
  by (simp add: bind_def call_def split: prod.splits sum.splits)

lemma bind_try_call:
  "bind (try_except (call g) h) f (c, d) =
     (case g c d of
        (Inl (NMOSTestException r), d') \<Rightarrow> bind (h r) f (c, d')
      | (Inl e, d') \<Rightarrow> (Inl e, (c, d'))
      | (Inr x, d') \<Rightarrow> f x (c, d'))"
  by (simp add: bind_def call_def try_except_def split: prod.splits sum.splits exn.splits)

lemma bind_index0_Nil [simp]: "bind (index0 []) f = raise IndexError"
  by (simp add: index0_def)

lemma bind_index0_Cons [simp]: "bind (index0 (x # xs)) f = f x"
  by (simp add: index0_def)

lemma bind_lift: "bind (lift r) f = (case r of Inl e \<Rightarrow> raise e | Inr x \<Rightarrow> f x)"
  by (cases r) (simp_all add: bind_def lift_def raise_def fun_eq_iff)

lemma bind_Inr_D:
  "fst (bind m f s) = Inr v \<Longrightarrow> \<exists>x s'. m s = (Inr x, s') \<and> fst (f x s') = Inr v"
  by (cases "m s") (auto simp: bind_def split: sum.splits)

lemma bind_Inl: "fst (m s) = Inl e \<Longrightarrow> fst (bind m f s) = Inl e"
  by (cases "m s") (auto simp: bind_def)

lemma returns_iff: "returns r \<longleftrightarrow> (\<exists>x d. r = (Inr x, d))"
  by (cases r) (auto simp: returns_def split: sum.splits)

lemma result_distinct [simp]:
  "t_PASS t \<noteq> t_FAIL t' msg" "t_FAIL t' msg \<noteq> t_PASS t"
  "t_PASS t \<noteq> t_NA t' msg" "t_NA t' msg \<noteq> t_PASS t"
  by (simp_all add: t_PASS_def t_FAIL_def t_NA_def)

text \<open>Unfolding everything runs a test on a concrete device.\<close>

lemmas run_defs =
  bind_def set_test_def call_def try_except_def time_sleep_def get_config_def index0_def
  bind_sum_def

lemmas mock_defs =
  mock_api_def mk_mock_def mk_input_def mk_output_def config0_def helper_fail_def
  t_PASS_def t_FAIL_def t_NA_def t_MANUAL_def Action_def addAction_def Activation_def

subsection \<open>Scheduled activations (tests 03 and 04)\<close>

text \<open>
  Claim C4. In a run of \<open>check_delayed_activation\<close> in which the scheduled activation was
  submitted, the Active snapshot read right after the submission is compared with the one
  read before it. If \<open>compare_json\<close> finds them different, the run ends there by raising
  \<open>NMOSTestException\<close> with the FAIL result of the current test: the device is left in the
  state of the second read, so nothing was awaited or asserted. Otherwise the run sleeps
  two seconds, then calls \<open>assertActionCompleted\<close> with \<open>retries = 5\<close> on the submitted
  action, and sleeps one more second when that call returns.
\<close>

theorem check_delayed_activation_compares_then_waits:
  assumes "test c = Some t"
    and "unrouteAll api c d0 = (Inr (), d1)"
    and "buildJSONObject api c d1 = (Inr pre, d2)"
    and "getOutputList api c d2 = (Inr (out # outs), d3)"
    and "findAcceptableTestRoute api out c d3 = (Inr a, d4)"
    and "fireActivation api
           \<lparr>actions = [a], type = ty, activationTimestamp = Some ts\<rparr> c d4 = (Inr (), d5)"
    and "buildJSONObject api c d5 = (Inr pending, d6)"
  shows "check_delayed_activation api ts ty (c, d0) =
     (if \<not> compare_json api pre pending
      then (Inl (NMOSTestException (t_FAIL t ''Scheduled Activation completed immediately'')),
            (c, d6))
      else (case assertActionCompleted api a (Some 5) c (sleep api 2 d6) of
              (Inl e, d7) \<Rightarrow> (Inl e, (c, d7))
            | (Inr u, d7) \<Rightarrow> (Inr (), (c, sleep api 1 d7))))"
  using assms
  by (simp add: check_delayed_activation_def bind_call bind_try_call bind_assoc
      addAction_def Activation_def split: prod.splits sum.splits)

lemma test_03_unfold:
  "test_03_relative_activation api t (c, d) =
     bind (check_delayed_activation api ''2:0'' SCHEDULED_RELATIVE_ACTIVATION)
       (\<lambda>_. return (t_PASS t)) (c\<lparr>test := Some t\<rparr>, d)"
  by (simp add: test_03_relative_activation_def)

lemma test_04_unfold:
  "get_TAI_time api 2 (c\<lparr>test := Some t\<rparr>) d = (Inr timestamp, d') \<Longrightarrow>
   test_04_absolute_activation api t (c, d) =
     bind (check_delayed_activation api timestamp SCHEDULED_ABSOLUTE_ACTIVATION)
       (\<lambda>_. return (t_PASS t)) (c\<lparr>test := Some t\<rparr>, d')"
  by (simp add: test_04_absolute_activation_def bind_call)

theorem check_delayed_activation_witness:
  "check_delayed_activation (mock_api dev_immediate) ''2:0'' SCHEDULED_RELATIVE_ACTIVATION
     (config0\<lparr>test := Some ''test_03''\<rparr>, 0) =
   (Inl (NMOSTestException (t_FAIL ''test_03'' ''Scheduled Activation completed immediately'')),
    (config0\<lparr>test := Some ''test_03''\<rparr>, 1))
   \<and> check_delayed_activation (mock_api dev_io) ''2:0'' SCHEDULED_RELATIVE_ACTIVATION
     (config0\<lparr>test := Some ''test_03''\<rparr>, 0) =
   (Inr (), (config0\<lparr>test := Some ''test_03''\<rparr>, 3))"
  using check_delayed_activation_compares_then_waits
    [of "config0\<lparr>test := Some ''test_03''\<rparr>" "''test_03''" "mock_api dev_immediate" 0 0
        "JNumber 0" 0 "mk_output ''out0'' None None" "[]" 0
        "Action ''in0'' (OutputId ''out0'')" 0 SCHEDULED_RELATIVE_ACTIVATION "''2:0''" 1
        "JNumber 1" 1]
    check_delayed_activation_compares_then_waits
    [of "config0\<lparr>test := Some ''test_03''\<rparr>" "''test_03''" "mock_api dev_io" 0 0
        "JNumber 0" 0 "mk_output ''out0'' None None" "[]" 0
        "Action ''in0'' (OutputId ''out0'')" 0 SCHEDULED_RELATIVE_ACTIVATION "''2:0''" 0
        "JNumber 0" 0]
  by (simp add: mock_defs dev_immediate_def dev_io_def)

subsection \<open>An empty output list (tests 02 to 06)\<close>

lemma check_delayed_unroute_raises:
  "unrouteAll api c d = (Inl e, d1) \<Longrightarrow>
   check_delayed_activation api ts ty (c, d) = (Inl e, (c, d1))"
  by (simp add: check_delayed_activation_def bind_call)

lemma check_delayed_snapshot_raises:
  "unrouteAll api c d = (Inr u, d1) \<Longrightarrow> buildJSONObject api c d1 = (Inl e, d2) \<Longrightarrow>
   check_delayed_activation api ts ty (c, d) = (Inl e, (c, d2))"
  by (simp add: check_delayed_activation_def bind_call)

lemma bind_Inl_full: "m s = (Inl e, s') \<Longrightarrow> bind m f s = (Inl e, s')"
  by (simp add: bind_def)

text \<open>
  Claim C10, as amended. On a device whose output list is empty, \<open>test_02\<close> and \<open>test_06\<close>
  always end with an unhandled \<open>IndexError\<close> from \<open>outputList[0]\<close>. \<open>test_05\<close> and the scheduled
  tests 03 and 04 call the helper library before they fetch the output list
  (\<open>unrouteAll\<close>; in \<open>check_delayed_activation\<close> also \<open>buildJSONObject\<close>; in \<open>test_04\<close> also
  \<open>get_TAI_time\<close>); they end with the \<open>IndexError\<close> whenever those earlier calls return. When
  the first of those earlier calls that raises does so with the exception \<open>e\<close>, the test ends
  with \<open>e\<close> in the device state that call left behind: nothing is fetched or indexed after it.
\<close>

theorem empty_output_list_IndexError:
  assumes "\<And>c d. fst (getOutputList api c d) = Inr []"
  shows "fst (test_02_immediate_activation api t (c, d)) = Inl IndexError
       \<and> fst (test_06_locking_response api t (c, d)) = Inl IndexError
       \<and> (returns (unrouteAll api (c\<lparr>test := Some t\<rparr>) d) \<longrightarrow>
            fst (test_05_delete_activations api t (c, d)) = Inl IndexError)
       \<and> (returns (unrouteAll api (c\<lparr>test := Some t\<rparr>) d)
            \<and> returns (buildJSONObject api (c\<lparr>test := Some t\<rparr>)
                         (snd (unrouteAll api (c\<lparr>test := Some t\<rparr>) d))) \<longrightarrow>
            fst (test_03_relative_activation api t (c, d)) = Inl IndexError)
       \<and> (returns (get_TAI_time api 2 (c\<lparr>test := Some t\<rparr>) d)
            \<and> returns (unrouteAll api (c\<lparr>test := Some t\<rparr>)
                         (snd (get_TAI_time api 2 (c\<lparr>test := Some t\<rparr>) d)))
            \<and> returns (buildJSONObject api (c\<lparr>test := Some t\<rparr>)
                         (snd (unrouteAll api (c\<lparr>test := Some t\<rparr>)
                                (snd (get_TAI_time api 2 (c\<lparr>test := Some t\<rparr>) d))))) \<longrightarrow>
            fst (test_04_absolute_activation api t (c, d)) = Inl IndexError)
       \<and> (unrouteAll api (c\<lparr>test := Some t\<rparr>) d = (Inl e5, d5) \<longrightarrow>
            test_05_delete_activations api t (c, d) = (Inl e5, (c\<lparr>test := Some t\<rparr>, d5)))
       \<and> (unrouteAll api (c\<lparr>test := Some t\<rparr>) d = (Inl e3, d3) \<longrightarrow>
            test_03_relative_activation api t (c, d) = (Inl e3, (c\<lparr>test := Some t\<rparr>, d3)))
       \<and> (unrouteAll api (c\<lparr>test := Some t\<rparr>) d = (Inr u3, d3a)
            \<and> buildJSONObject api (c\<lparr>test := Some t\<rparr>) d3a = (Inl e3b, d3b) \<longrightarrow>
            test_03_relative_activation api t (c, d) = (Inl e3b, (c\<lparr>test := Some t\<rparr>, d3b)))
       \<and> (get_TAI_time api 2 (c\<lparr>test := Some t\<rparr>) d = (Inl e4, d4) \<longrightarrow>
            test_04_absolute_activation api t (c, d) = (Inl e4, (c\<lparr>test := Some t\<rparr>, d4)))
       \<and> (get_TAI_time api 2 (c\<lparr>test := Some t\<rparr>) d = (Inr ts4, d4a)
            \<and> unrouteAll api (c\<lparr>test := Some t\<rparr>) d4a = (Inl e4b, d4b) \<longrightarrow>
            test_04_absolute_activation api t (c, d) = (Inl e4b, (c\<lparr>test := Some t\<rparr>, d4b)))
       \<and> (get_TAI_time api 2 (c\<lparr>test := Some t\<rparr>) d = (Inr ts4, d4a)
            \<and> unrouteAll api (c\<lparr>test := Some t\<rparr>) d4a = (Inr u4, d4c)
            \<and> buildJSONObject api (c\<lparr>test := Some t\<rparr>) d4c = (Inl e4d, d4d) \<longrightarrow>
            test_04_absolute_activation api t (c, d) = (Inl e4d, (c\<lparr>test := Some t\<rparr>, d4d)))"
proof -
  have cda: "fst (check_delayed_activation api ts ty (c', d')) = Inl IndexError"
    if "returns (unrouteAll api c' d')"
      and "returns (buildJSONObject api c' (snd (unrouteAll api c' d')))"
    for ts ty c' d'
    using that assms [of c' "snd (buildJSONObject api c' (snd (unrouteAll api c' d')))"]
    by (auto simp: check_delayed_activation_def bind_call returns_def
        split: prod.splits sum.splits)
  have t02: "fst (test_02_immediate_activation api t (c, d)) = Inl IndexError"
    using assms [of "c\<lparr>test := Some t\<rparr>" d]
    by (auto simp: test_02_immediate_activation_def bind_call split: prod.splits sum.splits)
  have t06: "fst (test_06_locking_response api t (c, d)) = Inl IndexError"
    using assms [of "c\<lparr>test := Some t\<rparr>" d]
    by (auto simp: test_06_locking_response_def bind_call split: prod.splits sum.splits)
  have t05: "fst (test_05_delete_activations api t (c, d)) = Inl IndexError"
    if "returns (unrouteAll api (c\<lparr>test := Some t\<rparr>) d)"
    using that
      assms [of "c\<lparr>test := Some t\<rparr>" "snd (unrouteAll api (c\<lparr>test := Some t\<rparr>) d)"]
    by (auto simp: test_05_delete_activations_def bind_call returns_def
        split: prod.splits sum.splits)
  have t03: "fst (test_03_relative_activation api t (c, d)) = Inl IndexError"
    if "returns (unrouteAll api (c\<lparr>test := Some t\<rparr>) d)"
      and "returns (buildJSONObject api (c\<lparr>test := Some t\<rparr>)
                         (snd (unrouteAll api (c\<lparr>test := Some t\<rparr>) d)))"
    using cda [OF that, of "''2:0''" SCHEDULED_RELATIVE_ACTIVATION]
    by (simp add: test_03_relative_activation_def bind_Inl)
  have t04: "fst (test_04_absolute_activation api t (c, d)) = Inl IndexError"
    if g0: "returns (get_TAI_time api 2 (c\<lparr>test := Some t\<rparr>) d)"
      and u0: "returns (unrouteAll api (c\<lparr>test := Some t\<rparr>)
                         (snd (get_TAI_time api 2 (c\<lparr>test := Some t\<rparr>) d)))"
      and b0: "returns (buildJSONObject api (c\<lparr>test := Some t\<rparr>)
                         (snd (unrouteAll api (c\<lparr>test := Some t\<rparr>)
                                (snd (get_TAI_time api 2 (c\<lparr>test := Some t\<rparr>) d)))))"
  proof -
    obtain ts d1 where g: "get_TAI_time api 2 (c\<lparr>test := Some t\<rparr>) d = (Inr ts, d1)"
      using g0 by (auto simp: returns_iff)
    show ?thesis
      using cda [of "c\<lparr>test := Some t\<rparr>" d1 ts SCHEDULED_ABSOLUTE_ACTIVATION] u0 b0 g
      by (simp add: test_04_absolute_activation_def bind_call bind_Inl)
  qed
  have r05: "test_05_delete_activations api t (c, d) = (Inl e5, (c\<lparr>test := Some t\<rparr>, d5))"
    if "unrouteAll api (c\<lparr>test := Some t\<rparr>) d = (Inl e5, d5)"
    using that by (simp add: test_05_delete_activations_def bind_call)
  have r03a: "test_03_relative_activation api t (c, d) = (Inl e3, (c\<lparr>test := Some t\<rparr>, d3))"
    if "unrouteAll api (c\<lparr>test := Some t\<rparr>) d = (Inl e3, d3)"
    using check_delayed_unroute_raises [OF that]
    by (simp add: test_03_relative_activation_def bind_Inl_full)
  have r03b: "test_03_relative_activation api t (c, d) = (Inl e3b, (c\<lparr>test := Some t\<rparr>, d3b))"
    if "unrouteAll api (c\<lparr>test := Some t\<rparr>) d = (Inr u3, d3a)"
      and "buildJSONObject api (c\<lparr>test := Some t\<rparr>) d3a = (Inl e3b, d3b)"
    using check_delayed_snapshot_raises [OF that]
    by (simp add: test_03_relative_activation_def bind_Inl_full)
  have r04a: "test_04_absolute_activation api t (c, d) = (Inl e4, (c\<lparr>test := Some t\<rparr>, d4))"
    if "get_TAI_time api 2 (c\<lparr>test := Some t\<rparr>) d = (Inl e4, d4)"
    using that by (simp add: test_04_absolute_activation_def bind_call)
  have r04b: "test_04_absolute_activation api t (c, d) = (Inl e4b, (c\<lparr>test := Some t\<rparr>, d4b))"
    if "get_TAI_time api 2 (c\<lparr>test := Some t\<rparr>) d = (Inr ts4, d4a)"
      and "unrouteAll api (c\<lparr>test := Some t\<rparr>) d4a = (Inl e4b, d4b)"
    using that(1) check_delayed_unroute_raises [OF that(2)]
    by (simp add: test_04_absolute_activation_def bind_call bind_Inl_full)
  have r04c: "test_04_absolute_activation api t (c, d) = (Inl e4d, (c\<lparr>test := Some t\<rparr>, d4d))"
    if "get_TAI_time api 2 (c\<lparr>test := Some t\<rparr>) d = (Inr ts4, d4a)"
      and "unrouteAll api (c\<lparr>test := Some t\<rparr>) d4a = (Inr u4, d4c)"
      and "buildJSONObject api (c\<lparr>test := Some t\<rparr>) d4c = (Inl e4d, d4d)"
    using that(1) check_delayed_snapshot_raises [OF that(2,3)]
    by (simp add: test_04_absolute_activation_def bind_call bind_Inl_full)
  from t02 t06 t05 t03 t04 r05 r03a r03b r04a r04b r04c show ?thesis by blast
qed

theorem empty_output_list_witness:
  "(\<forall>c d. fst (getOutputList (mock_api dev_no_outputs) c d) = Inr [])
   \<and> fst (test_02_immediate_activation (mock_api dev_no_outputs) ''test_02'' (config0, 0))
       = Inl IndexError
   \<and> fst (test_06_locking_response (mock_api dev_no_outputs) ''test_06'' (config0, 0))
       = Inl IndexError
   \<and> fst (test_05_delete_activations (mock_api dev_no_outputs) ''test_05'' (config0, 0))
       = Inl IndexError
   \<and> fst (test_03_relative_activation (mock_api dev_no_outputs) ''test_03'' (config0, 0))
       = Inl IndexError
   \<and> fst (test_04_absolute_activation (mock_api dev_no_outputs) ''test_04'' (config0, 0))
       = Inl IndexError
   \<and> test_05_delete_activations (mock_api dev_no_outputs_unroute_error) ''test_05'' (config0, 0)
       = (Inl (NMOSTestException (t_FAIL ''test_05'' ''unroute rejected'')),
          (config0\<lparr>test := Some ''test_05''\<rparr>, 0))
   \<and> test_03_relative_activation (mock_api dev_no_outputs_unroute_error) ''test_03'' (config0, 0)
       = (Inl (NMOSTestException (t_FAIL ''test_03'' ''unroute rejected'')),
          (config0\<lparr>test := Some ''test_03''\<rparr>, 0))
   \<and> test_03_relative_activation api_active_error ''test_03'' (config0, 0)
       = (Inl (NMOSTestException (t_FAIL ''test_03'' ''active unreadable'')),
          (config0\<lparr>test := Some ''test_03''\<rparr>, 0))
   \<and> test_04_absolute_activation api_clock_error ''test_04'' (config0, 0)
       = (Inl (NMOSTestException (t_FAIL ''test_04'' ''no clock'')),
          (config0\<lparr>test := Some ''test_04''\<rparr>, 0))
   \<and> test_04_absolute_activation (mock_api dev_no_outputs_unroute_error) ''test_04'' (config0, 0)
       = (Inl (NMOSTestException (t_FAIL ''test_04'' ''unroute rejected'')),
          (config0\<lparr>test := Some ''test_04''\<rparr>, 0))
   \<and> test_04_absolute_activation api_active_error ''test_04'' (config0, 0)
       = (Inl (NMOSTestException (t_FAIL ''test_04'' ''active unreadable'')),
          (config0\<lparr>test := Some ''test_04''\<rparr>, 0))"
proof -
  have empty: "fst (getOutputList (mock_api dev_no_outputs) c d) = Inr []" for c d
    by (simp add: mock_defs dev_no_outputs_def)
  have empty_u: "fst (getOutputList (mock_api dev_no_outputs_unroute_error) c d) = Inr []" for c d
    by (simp add: mock_defs dev_no_outputs_def dev_no_outputs_unroute_error_def)
  have empty_a: "fst (getOutputList api_active_error c d) = Inr []" for c d
    by (simp add: api_active_error_def mock_defs dev_no_outputs_def)
  have empty_c: "fst (getOutputList api_clock_error c d) = Inr []" for c d
    by (simp add: api_clock_error_def mock_defs dev_no_outputs_def)
  have calls: "returns (unrouteAll (mock_api dev_no_outputs) c d)"
    "returns (buildJSONObject (mock_api dev_no_outputs) c d)"
    "returns (get_TAI_time (mock_api dev_no_outputs) 2 c d)" for c d
    by (simp_all add: mock_defs dev_no_outputs_def returns_def)
  note inst = empty_output_list_IndexError [of "mock_api dev_no_outputs" _ config0 0, OF empty]
  have first: "fst (test_02_immediate_activation (mock_api dev_no_outputs) ''test_02'' (config0, 0))
       = Inl IndexError
   \<and> fst (test_06_locking_response (mock_api dev_no_outputs) ''test_06'' (config0, 0))
       = Inl IndexError
   \<and> fst (test_05_delete_activations (mock_api dev_no_outputs) ''test_05'' (config0, 0))
       = Inl IndexError
   \<and> fst (test_03_relative_activation (mock_api dev_no_outputs) ''test_03'' (config0, 0))
       = Inl IndexError
   \<and> fst (test_04_absolute_activation (mock_api dev_no_outputs) ''test_04'' (config0, 0))
       = Inl IndexError"
    using inst [of "''test_02''"] inst [of "''test_06''"] inst [of "''test_05''"]
      inst [of "''test_03''"] inst [of "''test_04''"]
    by (simp add: calls empty)
  note inst_u = empty_output_list_IndexError
    [where api = "mock_api dev_no_outputs_unroute_error" and c = config0 and d = 0, OF empty_u]
  have u05: "test_05_delete_activations (mock_api dev_no_outputs_unroute_error) ''test_05'' (config0, 0)
       = (Inl (NMOSTestException (t_FAIL ''test_05'' ''unroute rejected'')),
          (config0\<lparr>test := Some ''test_05''\<rparr>, 0))"
    using inst_u [where t = "''test_05''"
        and ?e5.0 = "NMOSTestException (t_FAIL ''test_05'' ''unroute rejected'')" and ?d5.0 = 0]
    by (simp add: mock_defs dev_no_outputs_def dev_no_outputs_unroute_error_def)
  have u03: "test_03_relative_activation (mock_api dev_no_outputs_unroute_error) ''test_03'' (config0, 0)
       = (Inl (NMOSTestException (t_FAIL ''test_03'' ''unroute rejected'')),
          (config0\<lparr>test := Some ''test_03''\<rparr>, 0))"
    using inst_u [where t = "''test_03''"
        and ?e3.0 = "NMOSTestException (t_FAIL ''test_03'' ''unroute rejected'')" and ?d3.0 = 0]
    by (simp add: mock_defs dev_no_outputs_def dev_no_outputs_unroute_error_def)
  have u04: "test_04_absolute_activation (mock_api dev_no_outputs_unroute_error) ''test_04'' (config0, 0)
       = (Inl (NMOSTestException (t_FAIL ''test_04'' ''unroute rejected'')),
          (config0\<lparr>test := Some ''test_04''\<rparr>, 0))"
    using inst_u [where t = "''test_04''" and ?ts4.0 = "''1572861600:0''" and d4a = 0
        and e4b = "NMOSTestException (t_FAIL ''test_04'' ''unroute rejected'')" and d4b = 0]
    by (simp add: mock_defs dev_no_outputs_def dev_no_outputs_unroute_error_def)
  note inst_a = empty_output_list_IndexError
    [where api = api_active_error and c = config0 and d = 0, OF empty_a]
  have a03: "test_03_relative_activation api_active_error ''test_03'' (config0, 0)
       = (Inl (NMOSTestException (t_FAIL ''test_03'' ''active unreadable'')),
          (config0\<lparr>test := Some ''test_03''\<rparr>, 0))"
    using inst_a [where t = "''test_03''" and ?u3.0 = "()" and d3a = 0
        and e3b = "NMOSTestException (t_FAIL ''test_03'' ''active unreadable'')" and d3b = 0]
    by (simp add: api_active_error_def mock_defs dev_no_outputs_def)
  have a04: "test_04_absolute_activation api_active_error ''test_04'' (config0, 0)
       = (Inl (NMOSTestException (t_FAIL ''test_04'' ''active unreadable'')),
          (config0\<lparr>test := Some ''test_04''\<rparr>, 0))"
    using inst_a [where t = "''test_04''" and ?ts4.0 = "''1572861600:0''" and d4a = 0
        and ?u4.0 = "()" and d4c = 0
        and e4d = "NMOSTestException (t_FAIL ''test_04'' ''active unreadable'')" and d4d = 0]
    by (simp add: api_active_error_def mock_defs dev_no_outputs_def)
  note inst_c = empty_output_list_IndexError
    [where api = api_clock_error and c = config0 and d = 0, OF empty_c]
  have c04: "test_04_absolute_activation api_clock_error ''test_04'' (config0, 0)
       = (Inl (NMOSTestException (t_FAIL ''test_04'' ''no clock'')),
          (config0\<lparr>test := Some ''test_04''\<rparr>, 0))"
    using inst_c [where t = "''test_04''"
        and ?e4.0 = "NMOSTestException (t_FAIL ''test_04'' ''no clock'')" and ?d4.0 = 0]
    by (simp add: api_clock_error_def mock_defs dev_no_outputs_def)
  from empty first u05 u03 a03 c04 u04 a04 show ?thesis
    by (intro conjI allI) (simp_all only: simp_thms)
qed

text \<open>
  The claim as stated fails for \<open>test_05\<close>: on a device without outputs that answers the
  unroute request with an error, the exception of \<open>unrouteAll\<close> leaves the test and the
  output list is never indexed.
\<close>

theorem empty_output_list_counterexample:
  "getOutputList (mock_api dev_no_outputs_unroute_error)
     (config0\<lparr>test := Some ''test_05''\<rparr>) 0 = (Inr [], 0)
   \<and> fst (test_05_delete_activations (mock_api dev_no_outputs_unroute_error) ''test_05''
            (config0, 0))
       = Inl (NMOSTestException (t_FAIL ''test_05'' ''unroute rejected''))"
  by (simp add: test_05_delete_activations_def bind_call mock_defs dev_no_outputs_def
      dev_no_outputs_unroute_error_def)

subsection \<open>The test handle in the configuration\<close>

lemma keeps_Pair [intro!, simp]: "keeps_config (Pair r)"
  by (simp add: keeps_config_def)

lemma keeps_return [intro!, simp]: "keeps_config (return x)"
  by (simp add: keeps_config_def)

lemma keeps_raise [intro!, simp]: "keeps_config (raise e)"
  by (simp add: keeps_config_def)

lemma keeps_lift [intro!, simp]: "keeps_config (lift r)"
  by (simp add: keeps_config_def)

lemma keeps_call [intro!, simp]: "keeps_config (call g)"
  by (simp add: keeps_config_def call_def split: prod.splits)

lemma keeps_get_config [intro!, simp]: "keeps_config get_config"
  by (simp add: keeps_config_def get_config_def)

lemma keeps_time_sleep [intro!, simp]: "keeps_config (time_sleep api n)"
  by (simp add: keeps_config_def)

lemma keeps_index0 [intro!, simp]: "keeps_config (index0 xs)"
  by (cases xs) (simp_all add: index0_def)

lemma keeps_bind [intro!]:
  assumes "keeps_config m" and "\<And>x. keeps_config (f x)"
  shows "keeps_config (bind m f)"
  unfolding keeps_config_def
proof (intro allI)
  fix c d
  obtain r c' d' where m: "m (c, d) = (r, (c', d'))"
    by (metis prod.collapse)
  with assms(1) have c': "c' = c"
    by (metis keeps_config_def fst_conv snd_conv)
  show "fst (snd (bind m f (c, d))) = c"
  proof (cases r)
    case (Inl e)
    with m c' show ?thesis by (simp add: bind_def)
  next
    case (Inr x)
    with m c' assms(2) [of x] show ?thesis
      by (simp add: bind_def keeps_config_def)
  qed
qed

lemma keeps_try_except [intro!]:
  assumes "keeps_config m" and "\<And>r. keeps_config (h r)"
  shows "keeps_config (try_except m h)"
  unfolding keeps_config_def
proof (intro allI)
  fix c d
  obtain r c' d' where m: "m (c, d) = (r, (c', d'))"
    by (metis prod.collapse)
  with assms(1) have c': "c' = c"
    by (metis keeps_config_def fst_conv snd_conv)
  show "fst (snd (try_except m h (c, d))) = c"
    using m c' assms(2)
    by (auto simp: try_except_def keeps_config_def split: sum.splits exn.splits)
qed

lemma keeps_if [intro!]:
  "keeps_config m \<Longrightarrow> keeps_config n \<Longrightarrow> keeps_config (if b then m else n)"
  by simp









subsection \<open>The IO view (test 01)\<close>

lemma map_of_dict_set: "map_of (dict_set k v d) = (map_of d)(k \<mapsto> v)"
  by (induction d) (auto simp: fun_eq_iff)

lemma dict_set_fresh: "k \<notin> fst ` set d \<Longrightarrow> dict_set k v d = d @ [(k, v)]"
  by (induction d) auto

lemma map_of_assemble_inputs:
  "map_of (assemble_inputs inputList d) =
     map_of (rev (map (\<lambda>i. (i_id i, i_object i)) inputList) @ d)"
proof (induction inputList arbitrary: d)
  case Nil
  show ?case by simp
next
  case (Cons i inputList)
  show ?case
    by (simp add: Cons.IH map_of_dict_set fun_eq_iff map_add_def split: option.splits)
qed

lemma map_of_assemble_outputs:
  "map_of (assemble_outputs outputList d) =
     map_of (rev (map (\<lambda>out. (o_id out, o_object out)) outputList) @ d)"
proof (induction outputList arbitrary: d)
  case Nil
  show ?case by simp
next
  case (Cons out outputList)
  show ?case
    by (simp add: Cons.IH map_of_dict_set fun_eq_iff map_add_def split: option.splits)
qed

lemma assemble_inputs_distinct:
  "distinct (map fst d @ map i_id inputList) \<Longrightarrow>
   assemble_inputs inputList d = d @ map (\<lambda>i. (i_id i, i_object i)) inputList"
proof (induction inputList arbitrary: d)
  case Nil
  show ?case by simp
next
  case (Cons i inputList)
  from Cons.prems have fresh: "i_id i \<notin> fst ` set d"
    by auto
  from Cons.prems have "distinct (map fst (d @ [(i_id i, i_object i)]) @ map i_id inputList)"
    by auto
  from Cons.IH [OF this] fresh show ?case
    by (simp add: dict_set_fresh)
qed

lemma assemble_outputs_distinct:
  "distinct (map fst d @ map o_id outputList) \<Longrightarrow>
   assemble_outputs outputList d = d @ map (\<lambda>out. (o_id out, o_object out)) outputList"
proof (induction outputList arbitrary: d)
  case Nil
  show ?case by simp
next
  case (Cons out outputList)
  from Cons.prems have fresh: "o_id out \<notin> fst ` set d"
    by auto
  from Cons.prems have "distinct (map fst (d @ [(o_id out, o_object out)]) @ map o_id outputList)"
    by auto
  from Cons.IH [OF this] fresh show ?case
    by (simp add: dict_set_fresh)
qed

lemma mockIoResource_distinct:
  "distinct (map i_id inputList) \<Longrightarrow> distinct (map o_id outputList) \<Longrightarrow>
   mockIoResource inputList outputList = io_reconstruction inputList outputList"
  by (simp add: mockIoResource_def io_reconstruction_def
      assemble_inputs_distinct [of "[]", simplified] assemble_outputs_distinct [of "[]", simplified])

text \<open>
  Claim C7. When the three reads of \<open>test_01\<close> return, the test reports PASS if
  \<open>compare_json\<close> accepts the reconstruction \<open>mockIoResource\<close> against the aggregate read
  from \<open>/map/io\<close>, and FAIL otherwise. The reconstruction is an object with the two keys
  \<open>inputs\<close> and \<open>outputs\<close>; each is a dictionary that maps an id to the assembled object of
  the input (output) with that id, the last one if an id occurs twice. When the ids are
  distinct it is the reconstruction in the words of the specification.
\<close>

theorem test_01_pass_iff_io_matches:
  assumes "getInputList api (c\<lparr>test := Some t\<rparr>) d = (Inr inputList, d1)"
    and "getOutputList api (c\<lparr>test := Some t\<rparr>) d1 = (Inr outputList, d2)"
    and "getIOAsJSON api (c\<lparr>test := Some t\<rparr>) d2 = (Inr ioJSON, d3)"
  shows "fst (test_01_io_content_match api t (c, d)) =
           Inr (if compare_json api (mockIoResource inputList outputList) ioJSON
                then t_PASS t
                else t_FAIL t ''IO Resource does not correctly reflect the API resources'')
       \<and> (\<exists>inputs outputs.
             mockIoResource inputList outputList =
               JObject [(''inputs'', JObject inputs), (''outputs'', JObject outputs)]
           \<and> map_of inputs = map_of (rev (map (\<lambda>i. (i_id i, i_object i)) inputList))
           \<and> map_of outputs = map_of (rev (map (\<lambda>out. (o_id out, o_object out)) outputList)))
       \<and> (distinct (map i_id inputList) \<and> distinct (map o_id outputList) \<longrightarrow>
             mockIoResource inputList outputList = io_reconstruction inputList outputList)"
proof -
  have run: "fst (test_01_io_content_match api t (c, d)) =
           Inr (if compare_json api (mockIoResource inputList outputList) ioJSON
                then t_PASS t
                else t_FAIL t ''IO Resource does not correctly reflect the API resources'')"
    using assms by (simp add: test_01_io_content_match_def bind_call)
  have shape: "\<exists>inputs outputs.
             mockIoResource inputList outputList =
               JObject [(''inputs'', JObject inputs), (''outputs'', JObject outputs)]
           \<and> map_of inputs = map_of (rev (map (\<lambda>i. (i_id i, i_object i)) inputList))
           \<and> map_of outputs = map_of (rev (map (\<lambda>out. (o_id out, o_object out)) outputList))"
    using map_of_assemble_inputs [of inputList "[]"] map_of_assemble_outputs [of outputList "[]"]
    by (simp add: mockIoResource_def)
  from run shape mockIoResource_distinct show ?thesis
    by blast
qed

theorem test_01_witness:
  "fst (test_01_io_content_match (mock_api dev_io) ''test_01'' (config0, 0))
     = Inr (t_PASS ''test_01'')
   \<and> mockIoResource (m_inputs dev_io) (m_outputs dev_io)
     = io_reconstruction (m_inputs dev_io) (m_outputs dev_io)"
  using test_01_pass_iff_io_matches
    [where api = "mock_api dev_io" and c = config0 and t = "''test_01''" and d = 0
       and inputList = "m_inputs dev_io" and ?d1.0 = 0 and outputList = "m_outputs dev_io"
       and ?d2.0 = 0 and ioJSON = "m_io dev_io" and ?d3.0 = 0]
  by (simp add: mock_defs dev_io_def mockIoResource_def io_reconstruction_def)

subsection \<open>Allow-lists and the input ids (test 13)\<close>






lemma forbidden_loop_accepted:
  assumes "remove_each ids (co_routableInputs co) = Inr (forbidden0 # others)"
    and "checkReject api
           (addAction Activation (Action forbidden0 (OutputId (o_id (co_output co))))) c d
         = (Inl (NMOSTestException e), d')"
  shows "forbidden_loop api t outputInstance ids (co # rest) (c, d) =
         (Inr (t_FAIL t (msg_13 forbidden0 (o_id outputInstance))), (c, d'))"
  using assms by (simp add: bind_lift bind_def try_except_def call_def)





subsection \<open>Re-entrant loops (test 08)\<close>

text \<open>
  What \<open>test_08\<close> decides: it reports PASS exactly when every output that shares its source
  with the parent of some input has an allow-list that contains the id of the output
  itself. An output without allow-list in such a pair makes the test FAIL.
\<close>

lemma check_routes_PASS_iff:
  "check_routes t routes = t_PASS t \<longleftrightarrow>
     (\<forall>r \<in> set routes. \<exists>routableInputs.
         routable_inputs (o_caps (r_output r)) = Some routableInputs
       \<and> o_id (r_output r) \<in> set routableInputs)"
  by (induction routes) (auto split: option.splits)

lemma check_routes_cases:
  "check_routes t routes = t_PASS t \<or> (\<exists>msg. check_routes t routes = t_FAIL t msg)"
  by (induction routes) (auto split: option.splits)

lemma forbiddenRoutes_08_iff:
  "r \<in> set (forbiddenRoutes_08 outputList inputList) \<longleftrightarrow>
     r_output r \<in> set outputList \<and> r_input r \<in> set inputList
   \<and> o_source_id (r_output r) = i_parent (r_input r) \<and> route.more r = ()"
  by (cases r) (auto simp: forbiddenRoutes_08_def)

lemma test_08_no_allow_list_FAIL:
  assumes "getOutputList api (c\<lparr>test := Some t\<rparr>) d = (Inr outputList, d1)"
    and "getInputList api (c\<lparr>test := Some t\<rparr>) d1 = (Inr inputList, d2)"
    and "out \<in> set outputList" and "inp \<in> set inputList"
    and "o_source_id out = i_parent inp"
    and "routable_inputs (o_caps out) = None"
  shows "\<exists>v. fst (test_08_no_reentrant_loops api t (c, d)) = Inr v \<and> r_state v = FAIL"
proof -
  let ?routes = "forbiddenRoutes_08 outputList inputList"
  have "\<lparr>r_input = inp, r_output = out\<rparr> \<in> set ?routes"
    using assms(3-5) by (simp add: forbiddenRoutes_08_iff)
  with assms(6) have "check_routes t ?routes \<noteq> t_PASS t"
    by (force simp: check_routes_PASS_iff)
  with check_routes_cases [of t ?routes]
  obtain msg where "check_routes t ?routes = t_FAIL t msg"
    by blast
  then have "r_state (check_routes t ?routes) = FAIL"
    by (simp add: t_FAIL_def)
  with assms(1,2) show ?thesis
    by (simp add: test_08_no_reentrant_loops_def bind_call)
qed

lemma test_08_PASS_iff:
  assumes "getOutputList api (c\<lparr>test := Some t\<rparr>) d = (Inr outputList, d1)"
    and "getInputList api (c\<lparr>test := Some t\<rparr>) d1 = (Inr inputList, d2)"
  shows "fst (test_08_no_reentrant_loops api t (c, d)) = Inr (t_PASS t) \<longleftrightarrow>
     (\<forall>out \<in> set outputList. \<forall>inp \<in> set inputList.
        o_source_id out = i_parent inp \<longrightarrow>
        (\<exists>routableInputs. routable_inputs (o_caps out) = Some routableInputs
           \<and> o_id out \<in> set routableInputs))"
proof -
  have run: "fst (test_08_no_reentrant_loops api t (c, d)) =
          Inr (check_routes t (forbiddenRoutes_08 outputList inputList))"
    using assms by (simp add: test_08_no_reentrant_loops_def bind_call)
  have "(\<forall>r \<in> set (forbiddenRoutes_08 outputList inputList). P (r_output r)) \<longleftrightarrow>
        (\<forall>out \<in> set outputList. \<forall>inp \<in> set inputList.
           o_source_id out = i_parent inp \<longrightarrow> P out)" for P
    by (auto simp: forbiddenRoutes_08_def)
  with run show ?thesis
    by (simp add: check_routes_PASS_iff)
qed

text \<open>
  Claim C1. The claim lets \<open>test_08\<close> pass only if every re-entrant pair is excluded from
  the allow-list of its output, and makes it fail for a pair that is not excluded. The
  code tests \<open>route['output'].id not in routableInputs\<close>: it looks for the id of the output,
  not of the input, and fails when it is absent. On the two devices below the output's
  allow-list admits the re-entrant input (and contains the output's id), so the pair is
  not excluded, and \<open>test_08\<close> reports PASS.
\<close>

theorem test_08_passes_admitted_reentrant_route:
  "fst (test_08_no_reentrant_loops (mock_api dev_reentrant_same_id) ''test_08'' (config0, 0))
     = Inr (t_PASS ''test_08'')
   \<and> fst (test_08_no_reentrant_loops (mock_api dev_reentrant_listed) ''test_08'' (config0, 0))
     = Inr (t_PASS ''test_08'')"
  by (simp add: test_08_no_reentrant_loops_def run_defs mock_defs forbiddenRoutes_08_def
      dev_reentrant_same_id_def dev_reentrant_listed_def)

subsection \<open>Unrouted channels (test 07)\<close>

text \<open>Whatever the device answers, a verdict of \<open>test_07\<close> is PASS.\<close>

lemma test_07_only_PASS:
  "fst (test_07_unrouted_channels_null api t (c, d)) = Inr v \<Longrightarrow> v = t_PASS t"
  unfolding test_07_unrouted_channels_null_def
  by (auto dest!: bind_Inr_D)

text \<open>
  Claim C2. The claim makes \<open>test_07\<close> fail when exactly one of the channel index and the
  channel name is null. The code builds the FAIL result in that case and drops it (the
  statement \<open>test.FAIL(msg)\<close> has no \<open>return\<close>). On the device below the index of channel 0
  of \<open>out0\<close> is null and its name is not, and \<open>test_07\<close> reports PASS.
\<close>

theorem test_07_passes_partial_null:
  "fst (getInputChannelIndex (mock_api dev_partial_null) (mk_output ''out0'' None None) 0
          (config0\<lparr>test := Some ''test_07''\<rparr>) 0) = Inr None
   \<and> fst (getInputChannelName (mock_api dev_partial_null) (mk_output ''out0'' None None) 0
          (config0\<lparr>test := Some ''test_07''\<rparr>) 0) = Inr (Some ''in0'')
   \<and> fst (test_07_unrouted_channels_null (mock_api dev_partial_null) ''test_07'' (config0, 0))
     = Inr (t_PASS ''test_07'')"
  by (simp add: test_07_unrouted_channels_null_def run_defs mock_defs dev_partial_null_def
      upt_rec [of 0] index_ne_name_def)

subsection \<open>Forbidden routes (test 13)\<close>

text \<open>A verdict of \<open>test_13\<close> is never PASS: the loop ends in NA or returns FAIL.\<close>

lemma forbidden_loop_never_PASS:
  "fst (forbidden_loop api t outputInstance ids cos (c, d)) = Inr v \<Longrightarrow>
   v = t_NA t ''Could not test - no route is forbidden.'' \<or> (\<exists>msg. v = t_FAIL t msg)"
proof (induction cos arbitrary: d)
  case Nil
  then show ?case by simp
next
  case (Cons co cos)
  show ?case
  proof (cases "remove_each ids (co_routableInputs co)")
    case (Inl e)
    with Cons.prems show ?thesis by (simp add: bind_def)
  next
    case left: (Inr left)
    show ?thesis
    proof (cases left)
      case Nil
      with left Cons.prems Cons.IH show ?thesis by (simp add: bind_def)
    next
      case others: (Cons forbidden0 others)
      let ?act = "addAction Activation (Action forbidden0 (OutputId (o_id (co_output co))))"
      obtain r d' where cr: "checkReject api ?act c d = (r, d')"
        by (cases "checkReject api ?act c d") auto
      show ?thesis
      proof (cases r)
        case (Inr u)
        with cr left others Cons.prems
        have "fst (forbidden_loop api t outputInstance ids cos (c, d')) = Inr v"
          by (simp add: bind_def try_except_def call_def)
        from Cons.IH [OF this] show ?thesis .
      next
        case (Inl e)
        with cr left others Cons.prems show ?thesis
          by (cases e) (auto simp: bind_def try_except_def call_def)
      qed
    qed
  qed
qed

lemma test_13_never_PASS:
  "fst (test_13_violate_routing_constraints_rejected api t (c, d)) = Inr v \<Longrightarrow>
   r_state v \<noteq> PASS"
  unfolding test_13_violate_routing_constraints_rejected_def
  by (auto simp: t_NA_def t_FAIL_def dest!: bind_Inr_D dest!: forbidden_loop_never_PASS
      split: if_splits)

text \<open>
  Claim C3. The claim makes \<open>test_13\<close> pass when the device rejects the forbidden route.
  \<open>checkReject\<close> returns normally when the device rejects the submission, and the code then
  goes on to the next output and ends with NA. On the device below the input \<open>in1\<close> is
  absent from the allow-list of \<open>out0\<close>, the device rejects the route, and \<open>test_13\<close> reports
  NA with the message that no route is forbidden.
\<close>

theorem test_13_reports_NA_on_rejection:
  "fst (checkReject (mock_api dev_rejects_forbidden)
          (addAction Activation (Action ''in1'' (OutputId ''out0'')))
          (config0\<lparr>test := Some ''test_13''\<rparr>) 0) = Inr ()
   \<and> fst (test_13_violate_routing_constraints_rejected (mock_api dev_rejects_forbidden)
          ''test_13'' (config0, 0))
     = Inr (t_NA ''test_13'' ''Could not test - no route is forbidden.'')"
  by (simp add: test_13_violate_routing_constraints_rejected_def run_defs mock_defs
      dev_rejects_forbidden_def)

subsection \<open>Re-ordering (test 14)\<close>

text \<open>
  With an input that forbids re-ordering, the first pass of the filter loop takes \<open>len\<close>
  of a method: the test ends with \<open>TypeError\<close> before any activation is built.
\<close>

lemma filter_by_block_Cons [simp]:
  "filter_by_block (inp # rest) blockSize filteredInputs = Inl TypeError"
  by (simp add: len_of_method_def bind_sum_def)

lemma test_14_result:
  assumes "getInputList api (c\<lparr>test := Some t\<rparr>) d = (Inr inputList, d1)"
  shows "test_14_reordering_constraint api t (c, d) =
     (if filter (\<lambda>inputInstance. \<not> i_reordering inputInstance) inputList = []
      then Inr (t_NA t ''No inputs prevent re-ordering.'')
      else Inl TypeError, (c\<lparr>test := Some t\<rparr>, d1))"
  using assms
  by (cases "filter (\<lambda>inputInstance. \<not> i_reordering inputInstance) inputList")
    (simp_all add: test_14_reordering_constraint_def bind_call bind_lift len_of_method_def
      bind_sum_def)

text \<open>
  Claim C5. The claim makes \<open>test_14\<close> submit a cross-block activation for every input with
  \<open>reordering = false\<close> and report PASS or FAIL by the device's answer. On the device below
  the only input forbids re-ordering and has two channels for block size one, as has the
  output it can be routed to; \<open>test_14\<close> raises \<open>TypeError\<close> and reports nothing.
\<close>

theorem test_14_raises_TypeError:
  "fst (test_14_reordering_constraint (mock_api dev_no_reordering) ''test_14'' (config0, 0))
     = Inl TypeError"
  by (simp add: test_14_reordering_constraint_def run_defs mock_defs dev_no_reordering_def
      len_of_method_def)

subsection \<open>Block size (test 15)\<close>

text \<open>
  With an input of block size above one, the test reads \<open>.id\<close> of the list returned by
  \<open>getRoutableOutputs()\<close>: it ends with \<open>AttributeError\<close> before any activation is built.
\<close>

lemma test_15_result:
  assumes "getInputList api (c\<lparr>test := Some t\<rparr>) d = (Inr inputList, d1)"
  shows "test_15_block_constraint api t (c, d) =
     (if filter (\<lambda>inputInstance. i_block_size inputInstance > 1) inputList = []
      then Inr (t_NA t ''No inputs constrain by block.'')
      else Inl AttributeError, (c\<lparr>test := Some t\<rparr>, d1))"
  using assms
  by (cases "filter (\<lambda>inputInstance. i_block_size inputInstance > 1) inputList")
    (simp_all add: test_15_block_constraint_def bind_call bind_lift id_of_list_def)

text \<open>
  Claim C6. The claim makes \<open>test_15\<close> submit an out-of-block route on a block-constrained
  input and report PASS or FAIL by the device's answer. On the device below the only
  input has block size two; \<open>test_15\<close> raises \<open>AttributeError\<close> and reports nothing.
\<close>

theorem test_15_raises_AttributeError:
  "fst (test_15_block_constraint (mock_api dev_block_size_two) ''test_15'' (config0, 0))
     = Inl AttributeError"
  by (simp add: test_15_block_constraint_def run_defs mock_defs dev_block_size_two_def
      id_of_list_def)

end
